theory Spec2Isabelle
  imports Main "HOL-Library.Sublist"
begin

section \<open>Python values\<close>

text \<open>
  The raw response is what \<^verbatim>\<open>response.json()\<close> hands over: \<^verbatim>\<open>None\<close>, booleans,
  integers, floats, strings, lists and dictionaries with string keys. A float is held as
  the text \<^verbatim>\<open>repr\<close> gives for it (\<^verbatim>\<open>37.386\<close>, \<^verbatim>\<open>-0.0\<close>, \<^verbatim>\<open>1e+16\<close>): the
  code never computes with a float, it only tests its truth value and calls \<^verbatim>\<open>str\<close> on
  it. A string is its UTF-8 text. A dictionary is an association list in insertion
  order, read with \<open>map_of\<close>.
\<close>

datatype jv =
    JNull
  | JBool bool
  | JInt int
  | JFloat string
  | JStr string
  | JArr "jv list"
  | JObj "(string \<times> jv) list"

type_synonym pydict = "(string \<times> jv) list"

datatype py_error = AttributeError | TypeError

definition bind_e :: "py_error + 'a \<Rightarrow> ('a \<Rightarrow> py_error + 'b) \<Rightarrow> py_error + 'b" where
  "bind_e r f = (case r of Inl e \<Rightarrow> Inl e | Inr x \<Rightarrow> f x)"

text \<open>\<^verbatim>\<open>d.get(key, default)\<close> on a dictionary.\<close>

definition dict_get :: "pydict \<Rightarrow> string \<Rightarrow> jv \<Rightarrow> jv" where
  "dict_get d k dflt = (case map_of d k of None \<Rightarrow> dflt | Some v \<Rightarrow> v)"

text \<open>
  Looking up the method \<^verbatim>\<open>get\<close> on a value: only a dictionary has it, every other
  value raises \<^verbatim>\<open>AttributeError\<close>.
\<close>

fun get_method :: "jv \<Rightarrow> py_error + pydict" where
  "get_method (JObj d) = Inr d"
| "get_method _ = Inl AttributeError"

text \<open>Truth value of a value, as \<^verbatim>\<open>if x:\<close> and \<^verbatim>\<open>not x\<close> test it.\<close>

fun truthy :: "jv \<Rightarrow> bool" where
  "truthy JNull = False"
| "truthy (JBool b) = b"
| "truthy (JInt i) = (i \<noteq> 0)"
| "truthy (JFloat r) = (r \<noteq> ''0.0'' \<and> r \<noteq> ''-0.0'')"
| "truthy (JStr s) = (s \<noteq> [])"
| "truthy (JArr xs) = (xs \<noteq> [])"
| "truthy (JObj d) = (d \<noteq> [])"

text \<open>
  \<^verbatim>\<open>needle in x\<close> for a string needle: substring test on a string, membership on a list,
  key test on a dictionary, \<^verbatim>\<open>TypeError\<close> on a value that is not iterable.
\<close>

fun py_in :: "string \<Rightarrow> jv \<Rightarrow> py_error + bool" where
  "py_in needle (JStr s) = Inr (sublist needle s)"
| "py_in needle (JArr xs) = Inr (JStr needle \<in> set xs)"
| "py_in needle (JObj d) = Inr (needle \<in> fst ` set d)"
| "py_in needle _ = Inl TypeError"

subsection \<open>\<^verbatim>\<open>str\<close> and \<^verbatim>\<open>repr\<close>\<close>

fun digits :: "nat \<Rightarrow> string" where
  "digits n = (if n < 10 then [''0123456789'' ! n]
               else digits (n div 10) @ [''0123456789'' ! (n mod 10)])"

declare digits.simps [simp del]

definition str_int :: "int \<Rightarrow> string" where
  "str_int i = (if i < 0 then ''-'' @ digits (nat (- i)) else digits (nat i))"

fun str_join :: "string \<Rightarrow> string list \<Rightarrow> string" where
  "str_join sep [] = []"
| "str_join sep [x] = x"
| "str_join sep (x # y # ys) = x @ sep @ str_join sep (y # ys)"

text \<open>
  \<^verbatim>\<open>repr\<close> of a string quotes it and escapes the characters that are not printable; which
  code points are printable is a table of the Unicode database that the repository does
  not hold. \<^verbatim>\<open>repr\<close> on strings is therefore a parameter of the model, \<open>repr_str\<close>, and
  every property below holds for every such function. \<^verbatim>\<open>repr\<close> of the other values is
  built from it: a list is its items between brackets, a dictionary its
  \<^verbatim>\<open>key: value\<close> pairs between braces, both separated by a comma and a space.
\<close>

fun py_repr :: "(string \<Rightarrow> string) \<Rightarrow> jv \<Rightarrow> string"
  and repr_items :: "(string \<Rightarrow> string) \<Rightarrow> jv list \<Rightarrow> string list"
  and repr_pairs :: "(string \<Rightarrow> string) \<Rightarrow> (string \<times> jv) list \<Rightarrow> string list"
  and repr_pair :: "(string \<Rightarrow> string) \<Rightarrow> string \<times> jv \<Rightarrow> string" where
  "py_repr repr_str JNull = ''None''"
| "py_repr repr_str (JBool b) = (if b then ''True'' else ''False'')"
| "py_repr repr_str (JInt i) = str_int i"
| "py_repr repr_str (JFloat r) = r"
| "py_repr repr_str (JStr s) = repr_str s"
| "py_repr repr_str (JArr xs) = ''['' @ str_join '', '' (repr_items repr_str xs) @ '']''"
| "py_repr repr_str (JObj d) = ''{'' @ str_join '', '' (repr_pairs repr_str d) @ ''}''"
| "repr_items repr_str [] = []"
| "repr_items repr_str (x # xs) = py_repr repr_str x # repr_items repr_str xs"
| "repr_pairs repr_str [] = []"
| "repr_pairs repr_str (p # ps) = repr_pair repr_str p # repr_pairs repr_str ps"
| "repr_pair repr_str (k, v) = repr_str k @ '': '' @ py_repr repr_str v"

text \<open>\<^verbatim>\<open>str(x)\<close>: the text itself for a string, \<^verbatim>\<open>repr\<close> for everything else.\<close>

fun py_str :: "(string \<Rightarrow> string) \<Rightarrow> jv \<Rightarrow> string" where
  "py_str repr_str (JStr s) = s"
| "py_str repr_str v = py_repr repr_str v"

section \<open>The response transformer (\<^verbatim>\<open>data_processor.py\<close>)\<close>

definition required_fields :: "string list" where
  "required_fields = [''ip_address'']"

definition validate_response :: "pydict option \<Rightarrow> bool" where
  "validate_response data =
     (case data of
        None \<Rightarrow> False
      | Some d \<Rightarrow>
          if d = [] then False
          else list_all (\<lambda>field. map_of d field \<noteq> None) required_fields)"

definition determine_ip_version :: "jv \<Rightarrow> py_error + string" where
  "determine_ip_version ip_address =
     bind_e (py_in '':'' ip_address) (\<lambda>colon.
       if colon then Inr ''IPv6''
       else bind_e (py_in ''.'' ip_address) (\<lambda>period.
         if period then Inr ''IPv4'' else Inr ''Unknown''))"

definition extract_basic_info :: "(string \<Rightarrow> string) \<Rightarrow> pydict \<Rightarrow> py_error + pydict" where
  "extract_basic_info repr_str data =
     bind_e (determine_ip_version (dict_get data ''ip_address'' (JStr ''''))) (\<lambda>version.
       Inr [(''IP Address'', dict_get data ''ip_address'' (JStr ''N/A'')),
            (''IP Version'', JStr version),
            (''City'', dict_get data ''city'' (JStr ''N/A'')),
            (''Region'', dict_get data ''region'' (JStr ''N/A'')),
            (''Country'', dict_get data ''country'' (JStr ''N/A'')),
            (''Country Code'', dict_get data ''country_code'' (JStr ''N/A'')),
            (''Continent'', dict_get data ''continent'' (JStr ''N/A'')),
            (''Postal Code'', dict_get data ''postal_code'' (JStr ''N/A'')),
            (''Latitude'', JStr (py_str repr_str (dict_get data ''latitude'' (JStr ''N/A'')))),
            (''Longitude'', JStr (py_str repr_str (dict_get data ''longitude'' (JStr ''N/A''))))])"

definition extract_connection_info :: "(string \<Rightarrow> string) \<Rightarrow> pydict \<Rightarrow> py_error + pydict" where
  "extract_connection_info repr_str data =
     bind_e (get_method (dict_get data ''connection'' (JObj []))) (\<lambda>connection.
       Inr [(''ISP'', dict_get connection ''isp_name'' (JStr ''N/A'')),
            (''Organization'', dict_get connection ''organization_name'' (JStr ''N/A'')),
            (''ASN'', JStr (py_str repr_str (dict_get connection ''autonomous_system_number'' (JStr ''N/A'')))),
            (''ASN Organization'',
               dict_get connection ''autonomous_system_organization'' (JStr ''N/A'')),
            (''Connection Type'', dict_get connection ''connection_type'' (JStr ''N/A''))])"

definition extract_timezone_info :: "(string \<Rightarrow> string) \<Rightarrow> pydict \<Rightarrow> py_error + pydict" where
  "extract_timezone_info repr_str data =
     bind_e (get_method (dict_get data ''timezone'' (JObj []))) (\<lambda>timezone.
       Inr [(''Timezone Name'', dict_get timezone ''name'' (JStr ''N/A'')),
            (''Abbreviation'', dict_get timezone ''abbreviation'' (JStr ''N/A'')),
            (''GMT Offset'', JStr (py_str repr_str (dict_get timezone ''gmt_offset'' (JStr ''N/A'')))),
            (''Current Time'', dict_get timezone ''current_time'' (JStr ''N/A'')),
            (''Is DST'', JStr (py_str repr_str (dict_get timezone ''is_dst'' (JStr ''N/A''))))])"

definition check_proxy :: "pydict \<Rightarrow> jv" where
  "check_proxy security = dict_get security ''is_proxy'' (JBool False)"

definition check_tor :: "pydict \<Rightarrow> jv" where
  "check_tor security = dict_get security ''is_tor'' (JBool False)"

definition check_relay :: "pydict \<Rightarrow> jv" where
  "check_relay security = dict_get security ''is_relay'' (JBool False)"

definition assess_threat_level :: "pydict \<Rightarrow> string" where
  "assess_threat_level security =
     (let threats = [];
          threats = (if truthy (dict_get security ''is_vpn'' (JBool False))
                     then threats @ [''VPN''] else threats);
          threats = (if truthy (dict_get security ''is_proxy'' (JBool False))
                     then threats @ [''Proxy''] else threats);
          threats = (if truthy (dict_get security ''is_tor'' (JBool False))
                     then threats @ [''Tor''] else threats);
          threats = (if truthy (dict_get security ''is_relay'' (JBool False))
                     then threats @ [''Relay''] else threats)
      in if length threats = 0 then ''Clean''
         else if length threats = 1 then ''Low ('' @ threats ! 0 @ '' detected)''
         else ''Medium (Multiple: '' @ str_join '', '' threats @ '')'')"

definition extract_security_info :: "pydict \<Rightarrow> py_error + pydict" where
  "extract_security_info data =
     bind_e (get_method (dict_get data ''security'' (JObj []))) (\<lambda>security.
       Inr [(''Is VPN'', dict_get security ''is_vpn'' (JBool False)),
            (''Is Proxy'', check_proxy security),
            (''Is Tor'', check_tor security),
            (''Is Relay'', check_relay security),
            (''Threat Level'', JStr (assess_threat_level security))])"

definition extract_currency_info :: "pydict \<Rightarrow> py_error + pydict" where
  "extract_currency_info data =
     bind_e (get_method (dict_get data ''currency'' (JObj []))) (\<lambda>currency.
       Inr [(''Currency Name'', dict_get currency ''currency_name'' (JStr ''N/A'')),
            (''Currency Code'', dict_get currency ''currency_code'' (JStr ''N/A'')),
            (''Currency Symbol'', dict_get currency ''currency_symbol'' (JStr ''N/A''))])"

definition extract_flag_info :: "pydict \<Rightarrow> py_error + pydict" where
  "extract_flag_info data =
     bind_e (get_method (dict_get data ''flag'' (JObj []))) (\<lambda>flag.
       Inr [(''Flag Emoji'', dict_get flag ''emoji'' (JStr ''N/A'')),
            (''Flag Unicode'', dict_get flag ''unicode'' (JStr ''N/A'')),
            (''Flag PNG'', dict_get flag ''png'' (JStr ''N/A'')),
            (''Flag SVG'', dict_get flag ''svg'' (JStr ''N/A''))])"

text \<open>
  The dictionary display of \<^verbatim>\<open>process_all_data repr_str\<close> evaluates its six entries in order; the
  first exception leaves the function. After a successful validation the data is a
  dictionary, so the \<open>None\<close> case below is never reached.
\<close>

definition process_all_data :: "(string \<Rightarrow> string) \<Rightarrow> pydict option \<Rightarrow> py_error + (string \<times> pydict) list" where
  "process_all_data repr_str data =
     (if \<not> validate_response data then Inr []
      else case data of
        None \<Rightarrow> Inr []
      | Some d \<Rightarrow>
          bind_e (extract_basic_info repr_str d) (\<lambda>basic.
          bind_e (extract_connection_info repr_str d) (\<lambda>connection.
          bind_e (extract_timezone_info repr_str d) (\<lambda>timezone.
          bind_e (extract_security_info d) (\<lambda>security.
          bind_e (extract_currency_info d) (\<lambda>currency.
          bind_e (extract_flag_info d) (\<lambda>flag.
            Inr [(''basic'', basic),
                 (''connection'', connection),
                 (''timezone'', timezone),
                 (''security'', security),
                 (''currency'', currency),
                 (''flag'', flag)])))))))"

section \<open>The transport adapter (\<^verbatim>\<open>api_client.py\<close>)\<close>

text \<open>
  What \<^verbatim>\<open>requests.get\<close> and \<^verbatim>\<open>response.json()\<close> can raise: a timeout, a connection
  error, another \<^verbatim>\<open>RequestException\<close> (with the text of \<^verbatim>\<open>str(e)\<close>), or an exception
  outside that hierarchy, which no \<^verbatim>\<open>except\<close> clause of the client catches.
\<close>

datatype request_error = Timeout | ConnectionError | RequestException string | OtherError string

record http_response =
  status_code :: int
  json :: "request_error + jv"

text \<open>The network: what a GET on a URL with a timeout answers.\<close>

type_synonym transport = "string \<Rightarrow> nat \<Rightarrow> request_error + http_response"

record client =
  api_key :: string
  base_url :: string
  timeout :: nat

text \<open>The effects of a lookup: the lines printed and the requests sent, in order.\<close>

record io =
  printed :: "string list"
  sent :: "(string \<times> nat) list"

text \<open>A lookup returns a Python value (\<open>JNull\<close> is \<^verbatim>\<open>None\<close>) or lets an exception out.\<close>

datatype outcome = Returns jv | Raises request_error

definition print :: "string \<Rightarrow> io \<Rightarrow> io" where
  "print line w = w\<lparr>printed := printed w @ [line]\<rparr>"

definition requests_get ::
  "transport \<Rightarrow> string \<Rightarrow> nat \<Rightarrow> io \<Rightarrow> (request_error + http_response) \<times> io" where
  "requests_get net url t w = (net url t, w\<lparr>sent := sent w @ [(url, t)]\<rparr>)"

text \<open>The three \<^verbatim>\<open>except\<close> clauses that close both lookups.\<close>

fun except_clauses :: "(request_error + jv) \<times> io \<Rightarrow> outcome \<times> io" where
  "except_clauses (Inr v, w) = (Returns v, w)"
| "except_clauses (Inl Timeout, w) =
     (Returns JNull, print ''Error: Request timed out. Please check your internet connection.'' w)"
| "except_clauses (Inl ConnectionError, w) =
     (Returns JNull,
      print ''Error: Could not connect to API. Please check your internet connection.'' w)"
| "except_clauses (Inl (RequestException e), w) =
     (Returns JNull, print (''Error: An unexpected error occurred: '' @ e) w)"
| "except_clauses (Inl (OtherError e), w) = (Raises (OtherError e), w)"

definition get_current_ip_info :: "client \<Rightarrow> transport \<Rightarrow> io \<Rightarrow> outcome \<times> io" where
  "get_current_ip_info self net w =
     except_clauses
       (let url = base_url self @ ''?api_key='' @ api_key self;
            (r, w) = requests_get net url (timeout self) w
        in case r of
             Inl e \<Rightarrow> (Inl e, w)
           | Inr response \<Rightarrow>
               if status_code response = 200 then (json response, w)
               else if status_code response = 401 then
                 (Inr JNull, print ''Error: Invalid API key. Please check your credentials.'' w)
               else if status_code response = 429 then
                 (Inr JNull, print ''Error: API rate limit exceeded. Please try again later.'' w)
               else
                 (Inr JNull,
                  print (''Error: API returned status code '' @ str_int (status_code response)) w))"

fun isinstance_str :: "jv \<Rightarrow> bool" where
  "isinstance_str (JStr s) = True"
| "isinstance_str _ = False"

definition get_specific_ip_info :: "(string \<Rightarrow> string) \<Rightarrow> client \<Rightarrow> jv \<Rightarrow> transport \<Rightarrow> io \<Rightarrow> outcome \<times> io" where
  "get_specific_ip_info repr_str self ip_address net w =
     except_clauses
       (if \<not> truthy ip_address \<or> \<not> isinstance_str ip_address then
          (Inr JNull, print ''Error: Invalid IP address format.'' w)
        else
          let url = base_url self @ ''?api_key='' @ api_key self
                      @ ''&ip_address='' @ py_str repr_str ip_address;
              (r, w) = requests_get net url (timeout self) w
          in case r of
               Inl e \<Rightarrow> (Inl e, w)
             | Inr response \<Rightarrow>
                 if status_code response = 200 then (json response, w)
                 else if status_code response = 422 then
                   (Inr JNull,
                    print (''Error: Invalid IP address format: '' @ py_str repr_str ip_address) w)
                 else if status_code response = 401 then
                   (Inr JNull, print ''Error: Invalid API key. Please check your credentials.'' w)
                 else if status_code response = 429 then
                   (Inr JNull, print ''Error: API rate limit exceeded. Please try again later.'' w)
                 else
                   (Inr JNull,
                    print (''Error: API returned status code '' @ str_int (status_code response)) w))"

section \<open>The response transformer, with the world threaded through\<close>

text \<open>
  The same functions once more, now as the calls they are: each takes the world (what
  has been printed and sent so far) and hands it back with its result, and a function
  that calls another passes the world on, in the order of the source. A statement that
  printed, sent a request or kept something for a later call would show here.
\<close>

type_synonym 'a eff = "io \<Rightarrow> 'a \<times> io"

definition unit_eff :: "'a \<Rightarrow> 'a eff" where
  "unit_eff x = (\<lambda>w. (x, w))"

definition bind_eff :: "'a eff \<Rightarrow> ('a \<Rightarrow> 'b eff) \<Rightarrow> 'b eff" where
  "bind_eff m k = (\<lambda>w. case m w of (x, w') \<Rightarrow> k x w')"

definition bind_raise ::
  "(py_error + 'a) eff \<Rightarrow> ('a \<Rightarrow> (py_error + 'b) eff) \<Rightarrow> (py_error + 'b) eff" where
  "bind_raise m k = (\<lambda>w. case m w of (Inl e, w') \<Rightarrow> (Inl e, w') | (Inr x, w') \<Rightarrow> k x w')"

definition validate_response_io :: "pydict option \<Rightarrow> bool eff" where
  "validate_response_io data =
     (case data of
        None \<Rightarrow> unit_eff False
      | Some d \<Rightarrow>
          if d = [] then unit_eff False
          else unit_eff (list_all (\<lambda>field. map_of d field \<noteq> None) required_fields))"

definition determine_ip_version_io :: "jv \<Rightarrow> (py_error + string) eff" where
  "determine_ip_version_io ip_address =
     (case py_in '':'' ip_address of
        Inl e \<Rightarrow> unit_eff (Inl e)
      | Inr colon \<Rightarrow>
          if colon then unit_eff (Inr ''IPv6'')
          else (case py_in ''.'' ip_address of
                  Inl e \<Rightarrow> unit_eff (Inl e)
                | Inr period \<Rightarrow>
                    if period then unit_eff (Inr ''IPv4'') else unit_eff (Inr ''Unknown'')))"

definition extract_basic_info_io :: "(string \<Rightarrow> string) \<Rightarrow> pydict \<Rightarrow> (py_error + pydict) eff" where
  "extract_basic_info_io repr_str data =
     bind_raise (determine_ip_version_io (dict_get data ''ip_address'' (JStr ''''))) (\<lambda>version.
       unit_eff (Inr
           [(''IP Address'', dict_get data ''ip_address'' (JStr ''N/A'')),
            (''IP Version'', JStr version),
            (''City'', dict_get data ''city'' (JStr ''N/A'')),
            (''Region'', dict_get data ''region'' (JStr ''N/A'')),
            (''Country'', dict_get data ''country'' (JStr ''N/A'')),
            (''Country Code'', dict_get data ''country_code'' (JStr ''N/A'')),
            (''Continent'', dict_get data ''continent'' (JStr ''N/A'')),
            (''Postal Code'', dict_get data ''postal_code'' (JStr ''N/A'')),
            (''Latitude'', JStr (py_str repr_str (dict_get data ''latitude'' (JStr ''N/A'')))),
            (''Longitude'',
               JStr (py_str repr_str (dict_get data ''longitude'' (JStr ''N/A''))))]))"

definition extract_connection_info_io ::
  "(string \<Rightarrow> string) \<Rightarrow> pydict \<Rightarrow> (py_error + pydict) eff" where
  "extract_connection_info_io repr_str data =
     (case get_method (dict_get data ''connection'' (JObj [])) of
        Inl e \<Rightarrow> unit_eff (Inl e)
      | Inr connection \<Rightarrow>
          unit_eff (Inr
            [(''ISP'', dict_get connection ''isp_name'' (JStr ''N/A'')),
             (''Organization'', dict_get connection ''organization_name'' (JStr ''N/A'')),
             (''ASN'', JStr (py_str repr_str
                (dict_get connection ''autonomous_system_number'' (JStr ''N/A'')))),
             (''ASN Organization'',
                dict_get connection ''autonomous_system_organization'' (JStr ''N/A'')),
             (''Connection Type'', dict_get connection ''connection_type'' (JStr ''N/A''))]))"

definition extract_timezone_info_io ::
  "(string \<Rightarrow> string) \<Rightarrow> pydict \<Rightarrow> (py_error + pydict) eff" where
  "extract_timezone_info_io repr_str data =
     (case get_method (dict_get data ''timezone'' (JObj [])) of
        Inl e \<Rightarrow> unit_eff (Inl e)
      | Inr timezone \<Rightarrow>
          unit_eff (Inr
            [(''Timezone Name'', dict_get timezone ''name'' (JStr ''N/A'')),
             (''Abbreviation'', dict_get timezone ''abbreviation'' (JStr ''N/A'')),
             (''GMT Offset'', JStr (py_str repr_str
                (dict_get timezone ''gmt_offset'' (JStr ''N/A'')))),
             (''Current Time'', dict_get timezone ''current_time'' (JStr ''N/A'')),
             (''Is DST'', JStr (py_str repr_str (dict_get timezone ''is_dst'' (JStr ''N/A''))))]))"

definition check_proxy_io :: "pydict \<Rightarrow> jv eff" where
  "check_proxy_io security = unit_eff (dict_get security ''is_proxy'' (JBool False))"

definition check_tor_io :: "pydict \<Rightarrow> jv eff" where
  "check_tor_io security = unit_eff (dict_get security ''is_tor'' (JBool False))"

definition check_relay_io :: "pydict \<Rightarrow> jv eff" where
  "check_relay_io security = unit_eff (dict_get security ''is_relay'' (JBool False))"

definition assess_threat_level_io :: "pydict \<Rightarrow> string eff" where
  "assess_threat_level_io security =
     (let threats = [];
          threats = (if truthy (dict_get security ''is_vpn'' (JBool False))
                     then threats @ [''VPN''] else threats);
          threats = (if truthy (dict_get security ''is_proxy'' (JBool False))
                     then threats @ [''Proxy''] else threats);
          threats = (if truthy (dict_get security ''is_tor'' (JBool False))
                     then threats @ [''Tor''] else threats);
          threats = (if truthy (dict_get security ''is_relay'' (JBool False))
                     then threats @ [''Relay''] else threats)
      in if length threats = 0 then unit_eff ''Clean''
         else if length threats = 1 then unit_eff (''Low ('' @ threats ! 0 @ '' detected)'')
         else unit_eff (''Medium (Multiple: '' @ str_join '', '' threats @ '')''))"

definition extract_security_info_io :: "pydict \<Rightarrow> (py_error + pydict) eff" where
  "extract_security_info_io data =
     (case get_method (dict_get data ''security'' (JObj [])) of
        Inl e \<Rightarrow> unit_eff (Inl e)
      | Inr security \<Rightarrow>
          bind_eff (check_proxy_io security) (\<lambda>proxy.
          bind_eff (check_tor_io security) (\<lambda>tor.
          bind_eff (check_relay_io security) (\<lambda>relay.
          bind_eff (assess_threat_level_io security) (\<lambda>level.
            unit_eff (Inr
              [(''Is VPN'', dict_get security ''is_vpn'' (JBool False)),
               (''Is Proxy'', proxy),
               (''Is Tor'', tor),
               (''Is Relay'', relay),
               (''Threat Level'', JStr level)]))))))"

definition extract_currency_info_io :: "pydict \<Rightarrow> (py_error + pydict) eff" where
  "extract_currency_info_io data =
     (case get_method (dict_get data ''currency'' (JObj [])) of
        Inl e \<Rightarrow> unit_eff (Inl e)
      | Inr currency \<Rightarrow>
          unit_eff (Inr
            [(''Currency Name'', dict_get currency ''currency_name'' (JStr ''N/A'')),
             (''Currency Code'', dict_get currency ''currency_code'' (JStr ''N/A'')),
             (''Currency Symbol'', dict_get currency ''currency_symbol'' (JStr ''N/A''))]))"

definition extract_flag_info_io :: "pydict \<Rightarrow> (py_error + pydict) eff" where
  "extract_flag_info_io data =
     (case get_method (dict_get data ''flag'' (JObj [])) of
        Inl e \<Rightarrow> unit_eff (Inl e)
      | Inr flag \<Rightarrow>
          unit_eff (Inr
            [(''Flag Emoji'', dict_get flag ''emoji'' (JStr ''N/A'')),
             (''Flag Unicode'', dict_get flag ''unicode'' (JStr ''N/A'')),
             (''Flag PNG'', dict_get flag ''png'' (JStr ''N/A'')),
             (''Flag SVG'', dict_get flag ''svg'' (JStr ''N/A''))]))"

definition process_all_data_io ::
  "(string \<Rightarrow> string) \<Rightarrow> pydict option \<Rightarrow> (py_error + (string \<times> pydict) list) eff" where
  "process_all_data_io repr_str data =
     bind_eff (validate_response_io data) (\<lambda>valid.
       if \<not> valid then unit_eff (Inr [])
       else case data of
         None \<Rightarrow> unit_eff (Inr [])
       | Some d \<Rightarrow>
           bind_raise (extract_basic_info_io repr_str d) (\<lambda>basic.
           bind_raise (extract_connection_info_io repr_str d) (\<lambda>connection.
           bind_raise (extract_timezone_info_io repr_str d) (\<lambda>timezone.
           bind_raise (extract_security_info_io d) (\<lambda>security.
           bind_raise (extract_currency_info_io d) (\<lambda>currency.
           bind_raise (extract_flag_info_io d) (\<lambda>flag.
             unit_eff (Inr
               [(''basic'', basic),
                (''connection'', connection),
                (''timezone'', timezone),
                (''security'', security),
                (''currency'', currency),
                (''flag'', flag)]))))))))"

section \<open>JSON text (the standard library's \<^verbatim>\<open>json\<close> module)\<close>

subsection \<open>The encoder\<close>








subsection \<open>The decoder\<close>

text \<open>
  Modelled from the spec: no code of the repository reads the exported file back; the
  specification's reparsing is taken to be \<^verbatim>\<open>json.load\<close> of the same library, with its
  default arguments. White space is skipped between the tokens; a string ends at the
  first quote that is not escaped and may not hold a control character; a number is
  read by the pattern given below and is an integer unless it has a fraction or an
  exponent; a key read twice keeps its place and takes the later value.
\<close>

definition is_ws :: "char \<Rightarrow> bool" where
  "is_ws c = (c = CHR '' '' \<or> c = CHR 0x09 \<or> c = CHR 0x0A \<or> c = CHR 0x0D)"


definition is_digit :: "char \<Rightarrow> bool" where
  "is_digit c = (48 \<le> (of_char c :: nat) \<and> (of_char c :: nat) \<le> 57)"



















section \<open>The file export (\<^verbatim>\<open>output_formatter.py\<close>)\<close>












section \<open>Notions used to state the properties\<close>

subsection \<open>Threat level\<close>

text \<open>
  The threat level in the words of the specification: the names of the flags that are
  set, in the order VPN, Proxy, Tor, Relay; none gives Clean, one gives Low, more give
  Medium.
\<close>

definition spec_threat_level :: "bool \<Rightarrow> bool \<Rightarrow> bool \<Rightarrow> bool \<Rightarrow> string" where
  "spec_threat_level vpn proxy tor relay =
     (let names = map snd (filter fst
            [(vpn, ''VPN''), (proxy, ''Proxy''), (tor, ''Tor''), (relay, ''Relay'')])
      in if length names = 0 then ''Clean''
         else if length names = 1 then ''Low ('' @ hd names @ '' detected)''
         else ''Medium (Multiple: '' @ str_join '', '' names @ '')'')"

text \<open>A flag of the security mapping that is a boolean or absent, and one that is set.\<close>

definition bool_or_absent :: "pydict \<Rightarrow> string \<Rightarrow> bool" where
  "bool_or_absent m k =
     (case map_of m k of None \<Rightarrow> True | Some (JBool b) \<Rightarrow> True | Some _ \<Rightarrow> False)"

definition flag_true :: "pydict \<Rightarrow> string \<Rightarrow> bool" where
  "flag_true m k = (map_of m k = Some (JBool True))"

definition flag_keys :: "string list" where
  "flag_keys = [''is_vpn'', ''is_proxy'', ''is_tor'', ''is_relay'']"

subsection \<open>Shape of the raw response\<close>

text \<open>
  The five nested groups. A group key is harmless when it is absent or holds a mapping;
  \<open>group_of\<close> is the mapping the extraction then reads (empty when the key is absent).
\<close>

definition group_keys :: "string list" where
  "group_keys = [''connection'', ''timezone'', ''security'', ''currency'', ''flag'']"

definition mapping_or_absent :: "pydict \<Rightarrow> string \<Rightarrow> bool" where
  "mapping_or_absent d g =
     (case map_of d g of None \<Rightarrow> True | Some (JObj m) \<Rightarrow> True | Some _ \<Rightarrow> False)"

definition group_of :: "pydict \<Rightarrow> string \<Rightarrow> pydict" where
  "group_of d g = (case map_of d g of Some (JObj m) \<Rightarrow> m | _ \<Rightarrow> [])"

text \<open>The values on which \<^verbatim>\<open>':' in x\<close> is defined: strings, lists and mappings.\<close>

fun iterable :: "jv \<Rightarrow> bool" where
  "iterable (JStr s) = True"
| "iterable (JArr xs) = True"
| "iterable (JObj d) = True"
| "iterable _ = False"

definition ip_ok :: "pydict \<Rightarrow> bool" where
  "ip_ok d = (case map_of d ''ip_address'' of None \<Rightarrow> True | Some v \<Rightarrow> iterable v)"

definition well_shaped :: "pydict \<Rightarrow> bool" where
  "well_shaped d = (ip_ok d \<and> list_all (mapping_or_absent d) group_keys)"

subsection \<open>Shape of the categorized result\<close>

definition basic_labels :: "string list" where
  "basic_labels = [''IP Address'', ''IP Version'', ''City'', ''Region'', ''Country'',
                   ''Country Code'', ''Continent'', ''Postal Code'', ''Latitude'', ''Longitude'']"

definition connection_labels :: "string list" where
  "connection_labels = [''ISP'', ''Organization'', ''ASN'', ''ASN Organization'',
                        ''Connection Type'']"

definition timezone_labels :: "string list" where
  "timezone_labels = [''Timezone Name'', ''Abbreviation'', ''GMT Offset'', ''Current Time'',
                      ''Is DST'']"

definition security_labels :: "string list" where
  "security_labels = [''Is VPN'', ''Is Proxy'', ''Is Tor'', ''Is Relay'', ''Threat Level'']"

definition currency_labels :: "string list" where
  "currency_labels = [''Currency Name'', ''Currency Code'', ''Currency Symbol'']"

definition flag_labels :: "string list" where
  "flag_labels = [''Flag Emoji'', ''Flag Unicode'', ''Flag PNG'', ''Flag SVG'']"

definition category_labels :: "(string \<times> string list) list" where
  "category_labels =
     [(''basic'', basic_labels), (''connection'', connection_labels),
      (''timezone'', timezone_labels), (''security'', security_labels),
      (''currency'', currency_labels), (''flag'', flag_labels)]"

definition labels_of :: "(string \<times> pydict) list \<Rightarrow> (string \<times> string list) list" where
  "labels_of out = map (\<lambda>(category, entries). (category, map fst entries)) out"

text \<open>A field of a result, \<open>None\<close> when the transformation raised or the field is missing.\<close>

definition field_of ::
  "py_error + (string \<times> pydict) list \<Rightarrow> string \<Rightarrow> string \<Rightarrow> jv option" where
  "field_of r category label =
     (case r of
        Inl e \<Rightarrow> None
      | Inr out \<Rightarrow> (case map_of out category of None \<Rightarrow> None | Some fs \<Rightarrow> map_of fs label))"

text \<open>
  Which raw key each label is read from. \<open>defaults_to dflt src out table\<close>: every label
  of the table whose raw key is missing in \<open>src\<close> holds \<open>dflt\<close> in \<open>out\<close>.
\<close>

definition basic_fields :: "(string \<times> string) list" where
  "basic_fields =
     [(''IP Address'', ''ip_address''), (''City'', ''city''), (''Region'', ''region''),
      (''Country'', ''country''), (''Country Code'', ''country_code''),
      (''Continent'', ''continent''), (''Postal Code'', ''postal_code''),
      (''Latitude'', ''latitude''), (''Longitude'', ''longitude'')]"

definition connection_fields :: "(string \<times> string) list" where
  "connection_fields =
     [(''ISP'', ''isp_name''), (''Organization'', ''organization_name''),
      (''ASN'', ''autonomous_system_number''),
      (''ASN Organization'', ''autonomous_system_organization''),
      (''Connection Type'', ''connection_type'')]"

definition timezone_fields :: "(string \<times> string) list" where
  "timezone_fields =
     [(''Timezone Name'', ''name''), (''Abbreviation'', ''abbreviation''),
      (''GMT Offset'', ''gmt_offset''), (''Current Time'', ''current_time''),
      (''Is DST'', ''is_dst'')]"

definition security_fields :: "(string \<times> string) list" where
  "security_fields =
     [(''Is VPN'', ''is_vpn''), (''Is Proxy'', ''is_proxy''), (''Is Tor'', ''is_tor''),
      (''Is Relay'', ''is_relay'')]"

definition currency_fields :: "(string \<times> string) list" where
  "currency_fields =
     [(''Currency Name'', ''currency_name''), (''Currency Code'', ''currency_code''),
      (''Currency Symbol'', ''currency_symbol'')]"

definition flag_fields :: "(string \<times> string) list" where
  "flag_fields =
     [(''Flag Emoji'', ''emoji''), (''Flag Unicode'', ''unicode''), (''Flag PNG'', ''png''),
      (''Flag SVG'', ''svg'')]"

definition defaults_to :: "jv \<Rightarrow> pydict \<Rightarrow> pydict \<Rightarrow> (string \<times> string) list \<Rightarrow> bool" where
  "defaults_to dflt src out table =
     list_all (\<lambda>(label, key). map_of src key = None \<longrightarrow> map_of out label = Some dflt) table"

subsection \<open>Messages and requests of the transport adapter\<close>

definition msg_unauthorized :: string where
  "msg_unauthorized = ''Error: Invalid API key. Please check your credentials.''"

definition msg_rate_limited :: string where
  "msg_rate_limited = ''Error: API rate limit exceeded. Please try again later.''"

definition msg_unprocessable :: "string \<Rightarrow> string" where
  "msg_unprocessable a = ''Error: Invalid IP address format: '' @ a"

definition msg_generic :: "int \<Rightarrow> string" where
  "msg_generic st = ''Error: API returned status code '' @ str_int st"

text \<open>The message each lookup prints for a status other than 200.\<close>

definition current_message :: "int \<Rightarrow> string" where
  "current_message st =
     (if st = 401 then msg_unauthorized else if st = 429 then msg_rate_limited
      else msg_generic st)"

definition specific_message :: "string \<Rightarrow> int \<Rightarrow> string" where
  "specific_message a st =
     (if st = 422 then msg_unprocessable a else if st = 401 then msg_unauthorized
      else if st = 429 then msg_rate_limited else msg_generic st)"

definition current_url :: "client \<Rightarrow> string" where
  "current_url self = base_url self @ ''?api_key='' @ api_key self"

definition specific_url :: "client \<Rightarrow> string \<Rightarrow> string" where
  "specific_url self a = base_url self @ ''?api_key='' @ api_key self @ ''&ip_address='' @ a"

text \<open>A client, a silent start and a network that always answers the same.\<close>

definition example_client :: client where
  "example_client =
     \<lparr>api_key = ''k'', base_url = ''https://ipgeolocation.abstractapi.com/v1/'', timeout = 10\<rparr>"

definition quiet :: io where
  "quiet = \<lparr>printed = [], sent = []\<rparr>"

definition answer :: "int \<Rightarrow> jv \<Rightarrow> transport" where
  "answer st body = (\<lambda>url t. Inr \<lparr>status_code = st, json = Inr body\<rparr>)"

subsection \<open>JSON values and the exported file\<close>





text \<open>A depth that is enough for the scanner to read the text of a value.\<close>

fun need :: "jv \<Rightarrow> nat"
  and need_items :: "jv list \<Rightarrow> nat"
  and need_members :: "(string \<times> jv) list \<Rightarrow> nat" where
  "need (JArr xs) = Suc (need_items xs)"
| "need (JObj d) = Suc (need_members d)"
| "need JNull = 1"
| "need (JBool b) = 1"
| "need (JInt i) = 1"
| "need (JFloat r) = 1"
| "need (JStr s) = 1"
| "need_items [] = 0"
| "need_items (x # xs) = Suc (need x + need_items xs)"
| "need_members [] = 0"
| "need_members (p # ps) = Suc (need (snd p) + need_members ps)"


text \<open>
  Python's \<^verbatim>\<open>==\<close> between a value and a copy of it that shares no float object with
  it, as a value read back from a file is for a value built by the caller: a NaN is
  equal to no float, itself included, and only the same object on both sides lets a
  container pass over that, so the two are equal exactly when no NaN occurs in them.
\<close>

fun equal_to_copy :: "jv \<Rightarrow> bool"
  and equal_to_copies :: "jv list \<Rightarrow> bool"
  and equal_to_copy_members :: "(string \<times> jv) list \<Rightarrow> bool" where
  "equal_to_copy (JFloat r) = (r \<noteq> ''nan'')"
| "equal_to_copy (JArr xs) = equal_to_copies xs"
| "equal_to_copy (JObj d) = equal_to_copy_members d"
| "equal_to_copy JNull = True"
| "equal_to_copy (JBool b) = True"
| "equal_to_copy (JInt i) = True"
| "equal_to_copy (JStr s) = True"
| "equal_to_copies [] = True"
| "equal_to_copies (x # xs) = (equal_to_copy x \<and> equal_to_copies xs)"
| "equal_to_copy_members [] = True"
| "equal_to_copy_members (p # ps) = (equal_to_copy (snd p) \<and> equal_to_copy_members ps)"









section \<open>Properties of the response transformer\<close>

subsection \<open>The IP version classifier\<close>

lemma sublist_single: "sublist [c] s \<longleftrightarrow> c \<in> set s"
  by (simp add: sublist_def in_set_conv_decomp)

text \<open>
  C3. For every address string the classifier answers IPv6 when the string contains a
  colon, otherwise IPv4 when it contains a period, otherwise Unknown; the four sample
  addresses of the specification are classified as it says.
\<close>

theorem ip_version_classifier:
  "determine_ip_version (JStr s) =
     Inr (if CHR '':'' \<in> set s then ''IPv6''
          else if CHR ''.'' \<in> set s then ''IPv4'' else ''Unknown'')
   \<and> determine_ip_version (JStr ''8.8.8.8'') = Inr ''IPv4''
   \<and> determine_ip_version (JStr ''2001:4860:4860::8888'') = Inr ''IPv6''
   \<and> determine_ip_version (JStr '''') = Inr ''Unknown''
   \<and> determine_ip_version (JStr ''notanip'') = Inr ''Unknown''"
  by (simp add: determine_ip_version_def bind_e_def sublist_single)

lemma version_iterable:
  "iterable v \<Longrightarrow> \<exists>ver. determine_ip_version v = Inr ver"
  by (cases v) (auto simp: determine_ip_version_def bind_e_def)

lemma version_not_iterable:
  "\<not> iterable v \<Longrightarrow> determine_ip_version v = Inl TypeError"
  by (cases v) (auto simp: determine_ip_version_def bind_e_def)

subsection \<open>The threat level\<close>

lemma truthy_flag:
  "bool_or_absent m k \<Longrightarrow> truthy (dict_get m k (JBool False)) = flag_true m k"
  by (auto simp: bool_or_absent_def flag_true_def dict_get_def split: option.splits jv.splits)

lemma flag_false_iff:
  "bool_or_absent m k \<Longrightarrow> dict_get m k (JBool False) = JBool False \<longleftrightarrow> \<not> flag_true m k"
  by (auto simp: bool_or_absent_def flag_true_def dict_get_def split: option.splits jv.splits)

lemma assess_by_truthy:
  "assess_threat_level m =
     spec_threat_level (truthy (dict_get m ''is_vpn'' (JBool False)))
       (truthy (dict_get m ''is_proxy'' (JBool False)))
       (truthy (dict_get m ''is_tor'' (JBool False)))
       (truthy (dict_get m ''is_relay'' (JBool False)))"
  by (simp add: assess_threat_level_def spec_threat_level_def Let_def)

lemma spec_level_in_tier:
  "spec_threat_level a b c d = ''Clean''
   \<or> prefix ''Low ('' (spec_threat_level a b c d)
   \<or> prefix ''Medium (Multiple: '' (spec_threat_level a b c d)"
  by (cases a; cases b; cases c; cases d; simp add: spec_threat_level_def)

lemma spec_clean_iff:
  "spec_threat_level a b c d = ''Clean'' \<longleftrightarrow> \<not> a \<and> \<not> b \<and> \<not> c \<and> \<not> d"
  by (cases a; cases b; cases c; cases d; simp add: spec_threat_level_def)

text \<open>
  C2. For every security mapping whose four flags are booleans or absent (absent counts
  as false), the threat level computed by the code is the one the specification
  describes: Clean for no flag, Low naming the single flag, Medium listing the flags in
  the order VPN, Proxy, Tor, Relay. The result is always in one of these three tiers.
\<close>

theorem threat_level_tiers:
  assumes "bool_or_absent sec ''is_vpn''" "bool_or_absent sec ''is_proxy''"
    "bool_or_absent sec ''is_tor''" "bool_or_absent sec ''is_relay''"
  shows "assess_threat_level sec =
           spec_threat_level (flag_true sec ''is_vpn'') (flag_true sec ''is_proxy'')
             (flag_true sec ''is_tor'') (flag_true sec ''is_relay'')
         \<and> (assess_threat_level sec = ''Clean''
            \<or> prefix ''Low ('' (assess_threat_level sec)
            \<or> prefix ''Medium (Multiple: '' (assess_threat_level sec))"
  using assms spec_level_in_tier by (simp add: assess_by_truthy truthy_flag)

theorem threat_level_tiers_witness:
  "bool_or_absent [(''is_vpn'', JBool True), (''is_tor'', JBool True)] ''is_vpn''
   \<and> bool_or_absent [(''is_vpn'', JBool True), (''is_tor'', JBool True)] ''is_proxy''
   \<and> bool_or_absent [(''is_vpn'', JBool True), (''is_tor'', JBool True)] ''is_tor''
   \<and> bool_or_absent [(''is_vpn'', JBool True), (''is_tor'', JBool True)] ''is_relay''
   \<and> assess_threat_level [(''is_vpn'', JBool True), (''is_tor'', JBool True)]
       = ''Medium (Multiple: VPN, Tor)''"
  using threat_level_tiers [of "[(''is_vpn'', JBool True), (''is_tor'', JBool True)]"]
  by (simp add: bool_or_absent_def flag_true_def spec_threat_level_def)

subsection \<open>The six extraction functions\<close>

lemma dict_get_absent: "map_of m k = None \<Longrightarrow> dict_get m k dflt = dflt"
  by (simp add: dict_get_def)

lemma get_method_group:
  "get_method (dict_get d g (JObj [])) =
     (if mapping_or_absent d g then Inr (group_of d g) else Inl AttributeError)"
  by (auto simp: dict_get_def mapping_or_absent_def group_of_def split: option.splits jv.splits)

lemma ip_ok_iterable: "ip_ok d \<longleftrightarrow> iterable (dict_get d ''ip_address'' (JStr s))"
  by (simp add: ip_ok_def dict_get_def split: option.splits)

lemma basic_ok:
  assumes "ip_ok d"
  shows "\<exists>b. extract_basic_info repr_str d = Inr b \<and> map fst b = basic_labels"
proof -
  obtain ver where "determine_ip_version (dict_get d ''ip_address'' (JStr [])) = Inr ver"
    using assms version_iterable ip_ok_iterable by blast
  then show ?thesis
    by (simp add: extract_basic_info_def bind_e_def basic_labels_def)
qed

lemma basic_bad:
  assumes "\<not> ip_ok d"
  shows "extract_basic_info repr_str d = Inl TypeError"
proof -
  have "determine_ip_version (dict_get d ''ip_address'' (JStr [])) = Inl TypeError"
    using assms version_not_iterable ip_ok_iterable by blast
  then show ?thesis
    by (simp add: extract_basic_info_def bind_e_def)
qed

lemma basic_defaults:
  assumes "extract_basic_info repr_str d = Inr b"
  shows "defaults_to (JStr ''N/A'') d b basic_fields"
  using assms
  by (auto simp: extract_basic_info_def bind_e_def defaults_to_def basic_fields_def
      dict_get_absent split: sum.splits)

lemma connection_ok:
  assumes "mapping_or_absent d ''connection''"
  shows "\<exists>c. extract_connection_info repr_str d = Inr c \<and> map fst c = connection_labels
           \<and> defaults_to (JStr ''N/A'') (group_of d ''connection'') c connection_fields"
  using assms
  by (simp add: extract_connection_info_def get_method_group bind_e_def connection_labels_def
      defaults_to_def connection_fields_def dict_get_absent)

lemma timezone_ok:
  assumes "mapping_or_absent d ''timezone''"
  shows "\<exists>c. extract_timezone_info repr_str d = Inr c \<and> map fst c = timezone_labels
           \<and> defaults_to (JStr ''N/A'') (group_of d ''timezone'') c timezone_fields"
  using assms
  by (simp add: extract_timezone_info_def get_method_group bind_e_def timezone_labels_def
      defaults_to_def timezone_fields_def dict_get_absent)

lemma security_explicit:
  assumes "mapping_or_absent d ''security''"
  shows "extract_security_info d =
      Inr [(''Is VPN'', dict_get (group_of d ''security'') ''is_vpn'' (JBool False)),
           (''Is Proxy'', dict_get (group_of d ''security'') ''is_proxy'' (JBool False)),
           (''Is Tor'', dict_get (group_of d ''security'') ''is_tor'' (JBool False)),
           (''Is Relay'', dict_get (group_of d ''security'') ''is_relay'' (JBool False)),
           (''Threat Level'', JStr (assess_threat_level (group_of d ''security'')))]"
  using assms
  by (simp add: extract_security_info_def get_method_group bind_e_def check_proxy_def
      check_tor_def check_relay_def)

lemma security_ok:
  assumes "mapping_or_absent d ''security''"
  shows "\<exists>c. extract_security_info d = Inr c \<and> map fst c = security_labels
           \<and> defaults_to (JBool False) (group_of d ''security'') c security_fields"
  by (simp add: security_explicit[OF assms] security_labels_def defaults_to_def
      security_fields_def dict_get_absent)

lemma currency_ok:
  assumes "mapping_or_absent d ''currency''"
  shows "\<exists>c. extract_currency_info d = Inr c \<and> map fst c = currency_labels
           \<and> defaults_to (JStr ''N/A'') (group_of d ''currency'') c currency_fields"
  using assms
  by (simp add: extract_currency_info_def get_method_group bind_e_def currency_labels_def
      defaults_to_def currency_fields_def dict_get_absent)

lemma flag_ok:
  assumes "mapping_or_absent d ''flag''"
  shows "\<exists>c. extract_flag_info d = Inr c \<and> map fst c = flag_labels
           \<and> defaults_to (JStr ''N/A'') (group_of d ''flag'') c flag_fields"
  using assms
  by (simp add: extract_flag_info_def get_method_group bind_e_def flag_labels_def
      defaults_to_def flag_fields_def dict_get_absent)

lemma connection_bad:
  "\<not> mapping_or_absent d ''connection'' \<Longrightarrow> extract_connection_info repr_str d = Inl AttributeError"
  by (simp add: extract_connection_info_def get_method_group bind_e_def)

lemma timezone_bad:
  "\<not> mapping_or_absent d ''timezone'' \<Longrightarrow> extract_timezone_info repr_str d = Inl AttributeError"
  by (simp add: extract_timezone_info_def get_method_group bind_e_def)

lemma security_bad:
  "\<not> mapping_or_absent d ''security'' \<Longrightarrow> extract_security_info d = Inl AttributeError"
  by (simp add: extract_security_info_def get_method_group bind_e_def)

lemma currency_bad:
  "\<not> mapping_or_absent d ''currency'' \<Longrightarrow> extract_currency_info d = Inl AttributeError"
  by (simp add: extract_currency_info_def get_method_group bind_e_def)

lemma flag_bad:
  "\<not> mapping_or_absent d ''flag'' \<Longrightarrow> extract_flag_info d = Inl AttributeError"
  by (simp add: extract_flag_info_def get_method_group bind_e_def)

subsection \<open>The whole transformation\<close>

lemma validate_iff:
  "validate_response raw \<longleftrightarrow> (\<exists>d. raw = Some d \<and> ''ip_address'' \<in> fst ` set d)"
  by (cases raw) (auto simp: validate_response_def required_fields_def map_of_eq_None_iff)

lemma well_shaped_unfold:
  "well_shaped d \<longleftrightarrow>
     ip_ok d \<and> mapping_or_absent d ''connection'' \<and> mapping_or_absent d ''timezone''
     \<and> mapping_or_absent d ''security'' \<and> mapping_or_absent d ''currency''
     \<and> mapping_or_absent d ''flag''"
  by (simp add: well_shaped_def group_keys_def)

lemma extraction_ok:
  assumes "well_shaped d"
  shows "\<exists>basic connection timezone security currency flag.
      extract_basic_info repr_str d = Inr basic \<and> map fst basic = basic_labels
      \<and> defaults_to (JStr ''N/A'') d basic basic_fields
    \<and> extract_connection_info repr_str d = Inr connection \<and> map fst connection = connection_labels
      \<and> defaults_to (JStr ''N/A'') (group_of d ''connection'') connection connection_fields
    \<and> extract_timezone_info repr_str d = Inr timezone \<and> map fst timezone = timezone_labels
      \<and> defaults_to (JStr ''N/A'') (group_of d ''timezone'') timezone timezone_fields
    \<and> extract_security_info d = Inr security \<and> map fst security = security_labels
      \<and> defaults_to (JBool False) (group_of d ''security'') security security_fields
    \<and> extract_currency_info d = Inr currency \<and> map fst currency = currency_labels
      \<and> defaults_to (JStr ''N/A'') (group_of d ''currency'') currency currency_fields
    \<and> extract_flag_info d = Inr flag \<and> map fst flag = flag_labels
      \<and> defaults_to (JStr ''N/A'') (group_of d ''flag'') flag flag_fields
    \<and> process_all_data repr_str (Some d) =
        Inr (if validate_response (Some d)
             then [(''basic'', basic), (''connection'', connection), (''timezone'', timezone),
                   (''security'', security), (''currency'', currency), (''flag'', flag)]
             else [])"
proof -
  from assms have ok: "ip_ok d" "mapping_or_absent d ''connection''"
    "mapping_or_absent d ''timezone''" "mapping_or_absent d ''security''"
    "mapping_or_absent d ''currency''" "mapping_or_absent d ''flag''"
    by (simp_all add: well_shaped_unfold)
  obtain b where b: "extract_basic_info repr_str d = Inr b" "map fst b = basic_labels"
    using basic_ok[OF ok(1)] by blast
  note bd = basic_defaults[OF b(1)]
  obtain c where c: "extract_connection_info repr_str d = Inr c" "map fst c = connection_labels"
    "defaults_to (JStr ''N/A'') (group_of d ''connection'') c connection_fields"
    using connection_ok[OF ok(2)] by blast
  obtain t where t: "extract_timezone_info repr_str d = Inr t" "map fst t = timezone_labels"
    "defaults_to (JStr ''N/A'') (group_of d ''timezone'') t timezone_fields"
    using timezone_ok[OF ok(3)] by blast
  obtain s where s: "extract_security_info d = Inr s" "map fst s = security_labels"
    "defaults_to (JBool False) (group_of d ''security'') s security_fields"
    using security_ok[OF ok(4)] by blast
  obtain cu where cu: "extract_currency_info d = Inr cu" "map fst cu = currency_labels"
    "defaults_to (JStr ''N/A'') (group_of d ''currency'') cu currency_fields"
    using currency_ok[OF ok(5)] by blast
  obtain f where f: "extract_flag_info d = Inr f" "map fst f = flag_labels"
    "defaults_to (JStr ''N/A'') (group_of d ''flag'') f flag_fields"
    using flag_ok[OF ok(6)] by blast
  have p: "process_all_data repr_str (Some d) =
        Inr (if validate_response (Some d)
             then [(''basic'', b), (''connection'', c), (''timezone'', t),
                   (''security'', s), (''currency'', cu), (''flag'', f)]
             else [])"
    by (simp add: process_all_data_def b(1) c(1) t(1) s(1) cu(1) f(1) bind_e_def)
  show ?thesis
    using b bd c t s cu f p by blast
qed

lemma process_bad:
  assumes "validate_response (Some d)" "\<not> well_shaped d"
  shows "\<exists>e. process_all_data repr_str (Some d) = Inl e"
proof -
  have "\<exists>e. bind_e r k = Inl e" if "r = Inl x" for r :: "py_error + pydict"
    and k :: "pydict \<Rightarrow> py_error + (string \<times> pydict) list" and x
    using that by (simp add: bind_e_def)
  note stop = this
  have step: "\<exists>e. bind_e r k = Inl e" if "\<And>v. \<exists>e. k v = Inl e"
    for r :: "py_error + pydict" and k :: "pydict \<Rightarrow> py_error + (string \<times> pydict) list"
    using that by (cases r) (simp_all add: bind_e_def)
  have "\<exists>e. bind_e (extract_basic_info repr_str d) (\<lambda>basic.
          bind_e (extract_connection_info repr_str d) (\<lambda>connection.
          bind_e (extract_timezone_info repr_str d) (\<lambda>timezone.
          bind_e (extract_security_info d) (\<lambda>security.
          bind_e (extract_currency_info d) (\<lambda>currency.
          bind_e (extract_flag_info d) (\<lambda>flag.
            Inr [(''basic'', basic),
                 (''connection'', connection),
                 (''timezone'', timezone),
                 (''security'', security),
                 (''currency'', currency),
                 (''flag'', flag)])))))) = Inl e"
  proof -
    consider "\<not> ip_ok d" | "\<not> mapping_or_absent d ''connection''"
      | "\<not> mapping_or_absent d ''timezone''" | "\<not> mapping_or_absent d ''security''"
      | "\<not> mapping_or_absent d ''currency''" | "\<not> mapping_or_absent d ''flag''"
      using assms(2) by (auto simp: well_shaped_unfold)
    then show ?thesis
    proof cases
      case 1 show ?thesis by (intro stop) (rule basic_bad[OF 1])
    next
      case 2 show ?thesis by (intro step stop) (rule connection_bad[OF 2])
    next
      case 3 show ?thesis by (intro step stop) (rule timezone_bad[OF 3])
    next
      case 4 show ?thesis by (intro step stop) (rule security_bad[OF 4])
    next
      case 5 show ?thesis by (intro step stop) (rule currency_bad[OF 5])
    next
      case 6 show ?thesis by (intro step stop) (rule flag_bad[OF 6])
    qed
  qed
  then show ?thesis using assms(1) by (simp add: process_all_data_def)
qed

text \<open>
  C1, as the code has it. A raw response that is null, empty or without the key
  \<open>ip_address\<close> gives the empty mapping. A raw response with \<open>ip_address\<close> in which
  every group key that is present holds a mapping, and \<open>ip_address\<close> holds a string, a
  list or a mapping, gives exactly the six categories basic, connection, timezone,
  security, currency, flag, each with exactly its fixed labels. Any other raw response
  with \<open>ip_address\<close> makes the transformation raise.
\<close>

theorem process_all_data_shape:
  "(raw = None \<or> raw = Some [] \<or> (\<exists>d. raw = Some d \<and> ''ip_address'' \<notin> fst ` set d)
      \<longrightarrow> process_all_data repr_str raw = Inr [])
   \<and> (\<forall>d. raw = Some d \<and> ''ip_address'' \<in> fst ` set d \<and> well_shaped d
      \<longrightarrow> (\<exists>out. process_all_data repr_str raw = Inr out \<and> labels_of out = category_labels))
   \<and> (\<forall>d. raw = Some d \<and> ''ip_address'' \<in> fst ` set d \<and> \<not> well_shaped d
      \<longrightarrow> (\<exists>e. process_all_data repr_str raw = Inl e))"
proof (intro conjI allI impI)
  assume "raw = None \<or> raw = Some [] \<or> (\<exists>d. raw = Some d \<and> ''ip_address'' \<notin> fst ` set d)"
  then have "\<not> validate_response raw" by (auto simp: validate_iff)
  then show "process_all_data repr_str raw = Inr []" by (simp add: process_all_data_def)
next
  fix d assume a: "raw = Some d \<and> ''ip_address'' \<in> fst ` set d \<and> well_shaped d"
  then have v: "validate_response (Some d)" by (auto simp: validate_iff)
  from a extraction_ok[of d] obtain b c t s cu f where
    "map fst b = basic_labels" "map fst c = connection_labels" "map fst t = timezone_labels"
    "map fst s = security_labels" "map fst cu = currency_labels" "map fst f = flag_labels"
    "process_all_data repr_str (Some d) =
        Inr (if validate_response (Some d)
             then [(''basic'', b), (''connection'', c), (''timezone'', t),
                   (''security'', s), (''currency'', cu), (''flag'', f)]
             else [])"
    by blast
  then show "\<exists>out. process_all_data repr_str raw = Inr out \<and> labels_of out = category_labels"
    using a v by (simp add: labels_of_def category_labels_def)
next
  fix d assume a: "raw = Some d \<and> ''ip_address'' \<in> fst ` set d \<and> \<not> well_shaped d"
  then have "validate_response (Some d)" by (auto simp: validate_iff)
  then show "\<exists>e. process_all_data repr_str raw = Inl e" using a process_bad by blast
qed

theorem process_all_data_shape_witness:
  "process_all_data id (Some []) = Inr []
   \<and> (\<exists>out. process_all_data id (Some [(''ip_address'', JStr ''8.8.8.8''), (''flag'', JObj [])])
              = Inr out \<and> labels_of out = category_labels)
   \<and> (\<exists>e. process_all_data id (Some [(''ip_address'', JStr ''8.8.8.8''), (''flag'', JInt 7)])
            = Inl e)"
  using process_all_data_shape [where raw = "Some []" and repr_str = id]
    process_all_data_shape
      [where raw = "Some [(''ip_address'', JStr ''8.8.8.8''), (''flag'', JObj [])]"
         and repr_str = id]
    process_all_data_shape
      [where raw = "Some [(''ip_address'', JStr ''8.8.8.8''), (''flag'', JInt 7)]"
         and repr_str = id]
  by (simp add: well_shaped_def ip_ok_def group_keys_def mapping_or_absent_def)

text \<open>
  C1 as stated fails: a raw response with \<open>ip_address\<close> whose \<open>timezone\<close> is a string
  gives no mapping, the call of \<^verbatim>\<open>get\<close> on the string raises \<^verbatim>\<open>AttributeError\<close>.
\<close>

theorem process_all_data_shape_counterexample:
  "process_all_data id (Some [(''ip_address'', JStr ''1.1.1.1''), (''timezone'', JStr ''UTC'')])
     = Inl AttributeError"
  by code_simp

text \<open>
  C7, as the code has it. On every raw response in which the group keys that are present
  hold mappings and \<open>ip_address\<close>, when present, holds a string, list or mapping, each of
  the six extraction functions returns and so does the whole transformation. Each reads
  its group as the empty mapping when the key is absent, and a label whose raw key is
  missing holds \<open>N/A\<close>; the four security flags hold \<open>False\<close> instead.
\<close>

theorem extraction_total:
  assumes "well_shaped d"
  shows "\<exists>basic connection timezone security currency flag.
      extract_basic_info repr_str d = Inr basic
      \<and> defaults_to (JStr ''N/A'') d basic basic_fields
    \<and> extract_connection_info repr_str d = Inr connection
      \<and> defaults_to (JStr ''N/A'') (group_of d ''connection'') connection connection_fields
    \<and> extract_timezone_info repr_str d = Inr timezone
      \<and> defaults_to (JStr ''N/A'') (group_of d ''timezone'') timezone timezone_fields
    \<and> extract_security_info d = Inr security
      \<and> defaults_to (JBool False) (group_of d ''security'') security security_fields
    \<and> extract_currency_info d = Inr currency
      \<and> defaults_to (JStr ''N/A'') (group_of d ''currency'') currency currency_fields
    \<and> extract_flag_info d = Inr flag
      \<and> defaults_to (JStr ''N/A'') (group_of d ''flag'') flag flag_fields
    \<and> process_all_data repr_str (Some d) =
        Inr (if validate_response (Some d)
             then [(''basic'', basic), (''connection'', connection), (''timezone'', timezone),
                   (''security'', security), (''currency'', currency), (''flag'', flag)]
             else [])"
  using extraction_ok[OF assms] by blast

theorem extraction_total_witness:
  "well_shaped [(''ip_address'', JStr ''8.8.8.8''), (''connection'', JObj [(''isp_name'', JInt 3)])]
   \<and> extract_connection_info id
        [(''ip_address'', JStr ''8.8.8.8''), (''connection'', JObj [(''isp_name'', JInt 3)])]
       = Inr [(''ISP'', JInt 3), (''Organization'', JStr ''N/A''), (''ASN'', JStr ''N/A''),
              (''ASN Organization'', JStr ''N/A''), (''Connection Type'', JStr ''N/A'')]"
proof -
  have w: "well_shaped
     [(''ip_address'', JStr ''8.8.8.8''), (''connection'', JObj [(''isp_name'', JInt 3)])]"
    by (simp add: well_shaped_def ip_ok_def group_keys_def mapping_or_absent_def)
  from extraction_total[OF w] obtain c where
    "extract_connection_info id
        [(''ip_address'', JStr ''8.8.8.8''), (''connection'', JObj [(''isp_name'', JInt 3)])]
       = Inr c" by blast
  moreover have "extract_connection_info id
        [(''ip_address'', JStr ''8.8.8.8''), (''connection'', JObj [(''isp_name'', JInt 3)])]
       = Inr [(''ISP'', JInt 3), (''Organization'', JStr ''N/A''), (''ASN'', JStr ''N/A''),
              (''ASN Organization'', JStr ''N/A''), (''Connection Type'', JStr ''N/A'')]"
    by code_simp
  ultimately show ?thesis using w by simp
qed

text \<open>
  C7 as stated fails: with \<open>connection\<close> present and null the connection extraction
  raises \<^verbatim>\<open>AttributeError\<close>, and so does the whole transformation; and a missing
  security flag is read as \<open>False\<close>, not as \<open>N/A\<close>.
\<close>

theorem extraction_total_counterexample:
  "extract_connection_info id [(''ip_address'', JStr ''1.1.1.1''), (''connection'', JNull)]
     = Inl AttributeError
   \<and> process_all_data id (Some [(''ip_address'', JStr ''1.1.1.1''), (''connection'', JNull)])
     = Inl AttributeError
   \<and> extract_security_info [(''ip_address'', JStr ''1.1.1.1''), (''security'', JObj [])]
     = Inr [(''Is VPN'', JBool False), (''Is Proxy'', JBool False), (''Is Tor'', JBool False),
            (''Is Relay'', JBool False), (''Threat Level'', JStr ''Clean'')]"
  by code_simp

lemma only_ip_string:
  "process_all_data repr_str (Some [(''ip_address'', JStr s)]) =
     Inr [(''basic'',
           [(''IP Address'', JStr s),
            (''IP Version'', JStr (if CHR '':'' \<in> set s then ''IPv6''
                                   else if CHR ''.'' \<in> set s then ''IPv4'' else ''Unknown'')),
            (''City'', JStr ''N/A''), (''Region'', JStr ''N/A''), (''Country'', JStr ''N/A''),
            (''Country Code'', JStr ''N/A''), (''Continent'', JStr ''N/A''),
            (''Postal Code'', JStr ''N/A''), (''Latitude'', JStr ''N/A''),
            (''Longitude'', JStr ''N/A'')]),
          (''connection'',
           [(''ISP'', JStr ''N/A''), (''Organization'', JStr ''N/A''), (''ASN'', JStr ''N/A''),
            (''ASN Organization'', JStr ''N/A''), (''Connection Type'', JStr ''N/A'')]),
          (''timezone'',
           [(''Timezone Name'', JStr ''N/A''), (''Abbreviation'', JStr ''N/A''),
            (''GMT Offset'', JStr ''N/A''), (''Current Time'', JStr ''N/A''),
            (''Is DST'', JStr ''N/A'')]),
          (''security'',
           [(''Is VPN'', JBool False), (''Is Proxy'', JBool False), (''Is Tor'', JBool False),
            (''Is Relay'', JBool False), (''Threat Level'', JStr ''Clean'')]),
          (''currency'',
           [(''Currency Name'', JStr ''N/A''), (''Currency Code'', JStr ''N/A''),
            (''Currency Symbol'', JStr ''N/A'')]),
          (''flag'',
           [(''Flag Emoji'', JStr ''N/A''), (''Flag Unicode'', JStr ''N/A''),
            (''Flag PNG'', JStr ''N/A''), (''Flag SVG'', JStr ''N/A'')])]"
proof -
  let ?d = "[(''ip_address'', JStr s)]"
  have v: "validate_response (Some ?d)" by (simp add: validate_iff)
  have b: "extract_basic_info repr_str ?d = Inr [(''IP Address'', JStr s),
            (''IP Version'', JStr (if CHR '':'' \<in> set s then ''IPv6''
                                   else if CHR ''.'' \<in> set s then ''IPv4'' else ''Unknown'')),
            (''City'', JStr ''N/A''), (''Region'', JStr ''N/A''), (''Country'', JStr ''N/A''),
            (''Country Code'', JStr ''N/A''), (''Continent'', JStr ''N/A''),
            (''Postal Code'', JStr ''N/A''), (''Latitude'', JStr ''N/A''),
            (''Longitude'', JStr ''N/A'')]"
    by (simp add: extract_basic_info_def dict_get_def determine_ip_version_def bind_e_def
        sublist_single)
  have c: "extract_connection_info repr_str ?d = Inr [(''ISP'', JStr ''N/A''),
            (''Organization'', JStr ''N/A''), (''ASN'', JStr ''N/A''),
            (''ASN Organization'', JStr ''N/A''), (''Connection Type'', JStr ''N/A'')]"
    by (simp add: extract_connection_info_def dict_get_def bind_e_def)
  have t: "extract_timezone_info repr_str ?d = Inr [(''Timezone Name'', JStr ''N/A''),
            (''Abbreviation'', JStr ''N/A''), (''GMT Offset'', JStr ''N/A''),
            (''Current Time'', JStr ''N/A''), (''Is DST'', JStr ''N/A'')]"
    by (simp add: extract_timezone_info_def dict_get_def bind_e_def)
  have s: "extract_security_info ?d = Inr [(''Is VPN'', JBool False),
            (''Is Proxy'', JBool False), (''Is Tor'', JBool False),
            (''Is Relay'', JBool False), (''Threat Level'', JStr ''Clean'')]"
    by (simp add: extract_security_info_def dict_get_def bind_e_def check_proxy_def
        check_tor_def check_relay_def assess_threat_level_def)
  have cu: "extract_currency_info ?d = Inr [(''Currency Name'', JStr ''N/A''),
            (''Currency Code'', JStr ''N/A''), (''Currency Symbol'', JStr ''N/A'')]"
    by (simp add: extract_currency_info_def dict_get_def bind_e_def)
  have f: "extract_flag_info ?d = Inr [(''Flag Emoji'', JStr ''N/A''),
            (''Flag Unicode'', JStr ''N/A''), (''Flag PNG'', JStr ''N/A''),
            (''Flag SVG'', JStr ''N/A'')]"
    by (simp add: extract_flag_info_def dict_get_def bind_e_def)
  show ?thesis
    by (simp add: process_all_data_def v b c t s cu f bind_e_def)
qed

lemma only_ip_not_iterable:
  assumes "\<not> iterable v"
  shows "process_all_data repr_str (Some [(''ip_address'', v)]) = Inl TypeError"
proof -
  have "\<not> ip_ok [(''ip_address'', v)]" using assms by (simp add: ip_ok_def)
  then have "extract_basic_info repr_str [(''ip_address'', v)] = Inl TypeError" by (rule basic_bad)
  moreover have "validate_response (Some [(''ip_address'', v)])" by (simp add: validate_iff)
  ultimately show ?thesis by (simp add: process_all_data_def bind_e_def)
qed

text \<open>
  C4, as the code has it. For a raw response whose only key is \<open>ip_address\<close>, holding a
  string, the transformation returns, and every field is \<open>N/A\<close> except the IP address
  itself, the IP version (the classifier's answer), the four security flags (\<open>False\<close>)
  and the threat level (\<open>Clean\<close>). When \<open>ip_address\<close> holds null, a boolean or a number,
  the transformation raises \<^verbatim>\<open>TypeError\<close>.
\<close>

theorem only_ip_address:
  "process_all_data repr_str (Some [(''ip_address'', JStr s)]) =
     Inr [(''basic'',
           [(''IP Address'', JStr s),
            (''IP Version'', JStr (if CHR '':'' \<in> set s then ''IPv6''
                                   else if CHR ''.'' \<in> set s then ''IPv4'' else ''Unknown'')),
            (''City'', JStr ''N/A''), (''Region'', JStr ''N/A''), (''Country'', JStr ''N/A''),
            (''Country Code'', JStr ''N/A''), (''Continent'', JStr ''N/A''),
            (''Postal Code'', JStr ''N/A''), (''Latitude'', JStr ''N/A''),
            (''Longitude'', JStr ''N/A'')]),
          (''connection'',
           [(''ISP'', JStr ''N/A''), (''Organization'', JStr ''N/A''), (''ASN'', JStr ''N/A''),
            (''ASN Organization'', JStr ''N/A''), (''Connection Type'', JStr ''N/A'')]),
          (''timezone'',
           [(''Timezone Name'', JStr ''N/A''), (''Abbreviation'', JStr ''N/A''),
            (''GMT Offset'', JStr ''N/A''), (''Current Time'', JStr ''N/A''),
            (''Is DST'', JStr ''N/A'')]),
          (''security'',
           [(''Is VPN'', JBool False), (''Is Proxy'', JBool False), (''Is Tor'', JBool False),
            (''Is Relay'', JBool False), (''Threat Level'', JStr ''Clean'')]),
          (''currency'',
           [(''Currency Name'', JStr ''N/A''), (''Currency Code'', JStr ''N/A''),
            (''Currency Symbol'', JStr ''N/A'')]),
          (''flag'',
           [(''Flag Emoji'', JStr ''N/A''), (''Flag Unicode'', JStr ''N/A''),
            (''Flag PNG'', JStr ''N/A''), (''Flag SVG'', JStr ''N/A'')])]
   \<and> (\<not> iterable v \<longrightarrow> process_all_data repr_str (Some [(''ip_address'', v)]) = Inl TypeError)"
  using only_ip_string only_ip_not_iterable by blast

theorem only_ip_address_witness:
  "field_of (process_all_data id (Some [(''ip_address'', JStr ''::1'')])) ''basic'' ''IP Version''
     = Some (JStr ''IPv6'')
   \<and> field_of (process_all_data id (Some [(''ip_address'', JStr ''::1'')])) ''flag'' ''Flag PNG''
     = Some (JStr ''N/A'')
   \<and> \<not> iterable (JInt 7)
   \<and> process_all_data id (Some [(''ip_address'', JInt 7)]) = Inl TypeError"
  using only_ip_address [where s = "''::1''" and v = "JInt 7" and repr_str = id]
  by (simp add: field_of_def)

text \<open>
  C4 as stated fails: with only \<open>ip_address\<close> given, the security flags are \<open>False\<close>,
  the threat level is \<open>Clean\<close> and the IP version is the classifier's answer, none of
  them \<open>N/A\<close>; and a null \<open>ip_address\<close> raises \<^verbatim>\<open>TypeError\<close>.
\<close>

theorem only_ip_address_counterexample:
  "field_of (process_all_data id (Some [(''ip_address'', JStr ''8.8.8.8'')])) ''security'' ''Is VPN''
     = Some (JBool False)
   \<and> field_of (process_all_data id (Some [(''ip_address'', JStr ''8.8.8.8'')]))
        ''security'' ''Threat Level'' = Some (JStr ''Clean'')
   \<and> field_of (process_all_data id (Some [(''ip_address'', JStr ''8.8.8.8'')]))
        ''basic'' ''IP Version'' = Some (JStr ''IPv4'')
   \<and> process_all_data id (Some [(''ip_address'', JNull)]) = Inl TypeError"
  by code_simp

text \<open>
  C10. For every raw response whose \<open>security\<close> group is absent or a mapping with each
  of the four flags a boolean or absent, the security category is consistent: the threat
  level is \<open>Clean\<close> exactly when the four output flags are all \<open>False\<close>. It is the
  security category of every non-empty result of the whole transformation.
\<close>

theorem security_consistent:
  assumes "mapping_or_absent d ''security''"
    and "list_all (bool_or_absent (group_of d ''security'')) flag_keys"
  shows "\<exists>security. extract_security_info d = Inr security
     \<and> (map_of security ''Threat Level'' = Some (JStr ''Clean'')
        \<longleftrightarrow> list_all (\<lambda>label. map_of security label = Some (JBool False))
              [''Is VPN'', ''Is Proxy'', ''Is Tor'', ''Is Relay''])
     \<and> (\<forall>out. process_all_data repr_str (Some d) = Inr out \<and> out \<noteq> []
          \<longrightarrow> map_of out ''security'' = Some security)"
proof -
  let ?m = "group_of d ''security''"
  from assms(2) have f: "bool_or_absent ?m ''is_vpn''" "bool_or_absent ?m ''is_proxy''"
    "bool_or_absent ?m ''is_tor''" "bool_or_absent ?m ''is_relay''"
    by (simp_all add: flag_keys_def)
  note e = security_explicit[OF assms(1)]
  have a: "assess_threat_level ?m = ''Clean'' \<longleftrightarrow>
      \<not> flag_true ?m ''is_vpn'' \<and> \<not> flag_true ?m ''is_proxy''
      \<and> \<not> flag_true ?m ''is_tor'' \<and> \<not> flag_true ?m ''is_relay''"
    by (simp add: assess_by_truthy truthy_flag[OF f(1)] truthy_flag[OF f(2)]
        truthy_flag[OF f(3)] truthy_flag[OF f(4)] spec_clean_iff)
  have p: "map_of out ''security'' = Some security"
    if "process_all_data repr_str (Some d) = Inr out" "out \<noteq> []"
      "extract_security_info d = Inr security" for out security
    using that
    by (auto simp: process_all_data_def bind_e_def split: if_splits sum.splits)
  show ?thesis
    unfolding e using p[OF _ _ e]
    by (simp add: a flag_false_iff[OF f(1)] flag_false_iff[OF f(2)] flag_false_iff[OF f(3)]
        flag_false_iff[OF f(4)])
qed

theorem security_consistent_witness:
  "mapping_or_absent
      [(''ip_address'', JStr ''8.8.8.8''), (''security'', JObj [(''is_tor'', JBool True)])]
      ''security''
   \<and> list_all (bool_or_absent (group_of
        [(''ip_address'', JStr ''8.8.8.8''), (''security'', JObj [(''is_tor'', JBool True)])]
        ''security'')) flag_keys
   \<and> (\<exists>security. extract_security_info
        [(''ip_address'', JStr ''8.8.8.8''), (''security'', JObj [(''is_tor'', JBool True)])]
         = Inr security
      \<and> (map_of security ''Threat Level'' = Some (JStr ''Clean'')
        \<longleftrightarrow> list_all (\<lambda>label. map_of security label = Some (JBool False))
              [''Is VPN'', ''Is Proxy'', ''Is Tor'', ''Is Relay'']))"
proof -
  let ?d = "[(''ip_address'', JStr ''8.8.8.8''), (''security'', JObj [(''is_tor'', JBool True)])]"
  have h1: "mapping_or_absent ?d ''security''"
    by (simp add: mapping_or_absent_def)
  have h2: "list_all (bool_or_absent (group_of ?d ''security'')) flag_keys"
    by (simp add: group_of_def flag_keys_def bool_or_absent_def)
  from security_consistent [OF h1 h2] h1 h2 show ?thesis by blast
qed

subsection \<open>No state and no effect\<close>

lemma validate_response_io: "validate_response_io data w = (validate_response data, w)"
  by (simp add: validate_response_io_def validate_response_def unit_eff_def split: option.splits)

lemma determine_ip_version_io:
  "determine_ip_version_io v w = (determine_ip_version v, w)"
  by (simp add: determine_ip_version_io_def determine_ip_version_def unit_eff_def bind_e_def
      split: sum.splits)

lemma extract_basic_info_io:
  "extract_basic_info_io rs d w = (extract_basic_info rs d, w)"
  by (simp add: extract_basic_info_io_def extract_basic_info_def determine_ip_version_io
      bind_raise_def unit_eff_def bind_e_def split: sum.splits)

lemma extract_connection_info_io:
  "extract_connection_info_io rs d w = (extract_connection_info rs d, w)"
  by (simp add: extract_connection_info_io_def extract_connection_info_def unit_eff_def
      bind_e_def split: sum.splits)

lemma extract_timezone_info_io:
  "extract_timezone_info_io rs d w = (extract_timezone_info rs d, w)"
  by (simp add: extract_timezone_info_io_def extract_timezone_info_def unit_eff_def
      bind_e_def split: sum.splits)

lemma assess_threat_level_io:
  "assess_threat_level_io m w = (assess_threat_level m, w)"
  by (simp add: assess_threat_level_io_def assess_threat_level_def unit_eff_def Let_def)

lemma extract_security_info_io:
  "extract_security_info_io d w = (extract_security_info d, w)"
  by (simp add: extract_security_info_io_def extract_security_info_def unit_eff_def
      bind_eff_def bind_e_def check_proxy_io_def check_tor_io_def check_relay_io_def
      check_proxy_def check_tor_def check_relay_def assess_threat_level_io
      split: sum.splits)

lemma extract_currency_info_io:
  "extract_currency_info_io d w = (extract_currency_info d, w)"
  by (simp add: extract_currency_info_io_def extract_currency_info_def unit_eff_def
      bind_e_def split: sum.splits)

lemma extract_flag_info_io:
  "extract_flag_info_io d w = (extract_flag_info d, w)"
  by (simp add: extract_flag_info_io_def extract_flag_info_def unit_eff_def
      bind_e_def split: sum.splits)

lemma process_all_data_io:
  "process_all_data_io rs raw w = (process_all_data rs raw, w)"
  by (simp add: process_all_data_io_def process_all_data_def bind_eff_def bind_raise_def
      unit_eff_def bind_e_def validate_response_io extract_basic_info_io
      extract_connection_info_io extract_timezone_info_io extract_security_info_io
      extract_currency_info_io extract_flag_info_io
      split: option.splits sum.splits)

text \<open>
  C9. The transformation is a pure function of the raw response. Run as a sequence of
  calls on the world, it leaves the world as it found it (it prints nothing, sends
  nothing and keeps nothing), and its result is the same in every world: two invocations
  on the same raw response give the same output, the one the function
  \<open>process_all_data\<close> of the raw response alone describes.
\<close>

theorem process_all_data_pure:
  "snd (process_all_data_io repr_str raw w) = w
   \<and> fst (process_all_data_io repr_str raw w) = fst (process_all_data_io repr_str raw w')
   \<and> fst (process_all_data_io repr_str raw w) = process_all_data repr_str raw"
  by (simp add: process_all_data_io)

theorem process_all_data_pure_witness:
  "snd (process_all_data_io id (Some [(''ip_address'', JStr ''8.8.8.8'')]) quiet) = quiet
   \<and> fst (process_all_data_io id (Some [(''ip_address'', JStr ''8.8.8.8'')]) quiet)
     = fst (process_all_data_io id (Some [(''ip_address'', JStr ''8.8.8.8'')])
             \<lparr>printed = [''Error: Request timed out.''], sent = []\<rparr>)"
  using process_all_data_pure
    [of id "Some [(''ip_address'', JStr ''8.8.8.8'')]" quiet
        "\<lparr>printed = [''Error: Request timed out.''], sent = []\<rparr>"]
  by simp

section \<open>Properties of the transport adapter\<close>

lemma current_on_response:
  assumes "net (current_url self) (timeout self) = Inr response" "json response = Inr body"
  shows "get_current_ip_info self net w =
     (if status_code response = 200
      then (Returns body, w\<lparr>sent := sent w @ [(current_url self, timeout self)]\<rparr>)
      else (Returns JNull,
            w\<lparr>sent := sent w @ [(current_url self, timeout self)],
              printed := printed w @ [current_message (status_code response)]\<rparr>))"
  using assms
  by (simp add: get_current_ip_info_def requests_get_def current_url_def print_def
      current_message_def msg_unauthorized_def msg_rate_limited_def msg_generic_def)

lemma specific_on_response:
  assumes "a \<noteq> []" "net (specific_url self a) (timeout self) = Inr response"
    "json response = Inr body"
  shows "get_specific_ip_info repr_str self (JStr a) net w =
     (if status_code response = 200
      then (Returns body, w\<lparr>sent := sent w @ [(specific_url self a, timeout self)]\<rparr>)
      else (Returns JNull,
            w\<lparr>sent := sent w @ [(specific_url self a, timeout self)],
              printed := printed w @ [specific_message a (status_code response)]\<rparr>))"
  using assms
  by (simp add: get_specific_ip_info_def requests_get_def specific_url_def print_def
      specific_message_def msg_unauthorized_def msg_rate_limited_def msg_generic_def
      msg_unprocessable_def)

lemma messages_distinct:
  "distinct [msg_unauthorized, msg_rate_limited, msg_unprocessable a, msg_generic st]"
  by (simp add: msg_unauthorized_def msg_rate_limited_def msg_generic_def msg_unprocessable_def)

lemma except_clauses_sent: "sent (snd (except_clauses p)) = sent (snd p)"
  by (cases p rule: except_clauses.cases) (simp_all add: print_def)

text \<open>
  C5, as the code has it. When the network answers a lookup with a response whose body
  parses, status 200 makes the lookup return the parsed body unchanged and print
  nothing. Any other status makes it return \<^verbatim>\<open>None\<close> and print one message: the
  invalid-key message on 401, the rate-limit message on 429, on the lookup of a given
  address the invalid-address message naming the address on 422, and otherwise (422 on
  the lookup of the current address included) the generic message that ends in the
  decimal status code. The four messages differ from each other. In every case exactly
  one request has been sent.
\<close>

theorem status_switch:
  assumes "a \<noteq> []"
    and "net (current_url self) (timeout self) = Inr response"
    and "net (specific_url self a) (timeout self) = Inr response"
    and "json response = Inr body"
  shows "get_current_ip_info self net w =
     (if status_code response = 200
      then (Returns body, w\<lparr>sent := sent w @ [(current_url self, timeout self)]\<rparr>)
      else (Returns JNull,
            w\<lparr>sent := sent w @ [(current_url self, timeout self)],
              printed := printed w @ [current_message (status_code response)]\<rparr>))
   \<and> get_specific_ip_info repr_str self (JStr a) net w =
     (if status_code response = 200
      then (Returns body, w\<lparr>sent := sent w @ [(specific_url self a, timeout self)]\<rparr>)
      else (Returns JNull,
            w\<lparr>sent := sent w @ [(specific_url self a, timeout self)],
              printed := printed w @ [specific_message a (status_code response)]\<rparr>))
   \<and> distinct [msg_unauthorized, msg_rate_limited, msg_unprocessable a,
                msg_generic (status_code response)]"
  using current_on_response [of net self response body w, OF assms(2,4)]
    specific_on_response [of a net self response body repr_str w, OF assms(1,3,4)]
    messages_distinct [of a "status_code response"]
  by blast

theorem status_switch_witness:
  "get_current_ip_info example_client (answer 503 (JObj [])) quiet =
     (Returns JNull,
      \<lparr>printed = [''Error: API returned status code 503''],
       sent = [(''https://ipgeolocation.abstractapi.com/v1/?api_key=k'', 10)]\<rparr>)
   \<and> get_specific_ip_info id example_client (JStr ''8.8.8.8'') (answer 503 (JObj [])) quiet =
     (Returns JNull,
      \<lparr>printed = [''Error: API returned status code 503''],
       sent = [(''https://ipgeolocation.abstractapi.com/v1/?api_key=k&ip_address=8.8.8.8'',
                10)]\<rparr>)"
  using status_switch [where repr_str = id, of "''8.8.8.8''" "answer 503 (JObj [])" example_client
      "\<lparr>status_code = 503, json = Inr (JObj [])\<rparr>" "JObj []" quiet]
  by (simp add: answer_def example_client_def quiet_def current_url_def specific_url_def
      current_message_def specific_message_def msg_generic_def str_int_def digits.simps)

text \<open>
  C5 as stated fails. On the lookup of the current address status 422 is answered with
  the generic message, not with an invalid-address reason. On status 401 the lookup
  returns \<^verbatim>\<open>None\<close> and prints a message without the status code, and what it returns on
  401 is what it returns on 429: the reason is printed, not returned.
\<close>

theorem status_reason_counterexample:
  "get_current_ip_info example_client (answer 422 (JObj [])) quiet =
     (Returns JNull,
      \<lparr>printed = [''Error: API returned status code 422''],
       sent = [(''https://ipgeolocation.abstractapi.com/v1/?api_key=k'', 10)]\<rparr>)
   \<and> get_specific_ip_info id example_client (JStr ''8.8.8.8'') (answer 401 (JObj [])) quiet =
     (Returns JNull,
      \<lparr>printed = [''Error: Invalid API key. Please check your credentials.''],
       sent = [(''https://ipgeolocation.abstractapi.com/v1/?api_key=k&ip_address=8.8.8.8'',
                10)]\<rparr>)
   \<and> fst (get_specific_ip_info id example_client (JStr ''8.8.8.8'') (answer 401 (JObj [])) quiet)
     = fst (get_specific_ip_info id example_client (JStr ''8.8.8.8'') (answer 429 (JObj [])) quiet)"
  by (simp add: get_current_ip_info_def get_specific_ip_info_def requests_get_def print_def
      answer_def example_client_def quiet_def str_int_def digits.simps)

text \<open>
  C6. When the address argument is the empty string or is not a string, the lookup of a
  given address returns \<^verbatim>\<open>None\<close> at once with the invalid-address message and sends no
  request. When it is a non-empty string the lookup sends exactly one request, whatever
  the network answers or raises.
\<close>

theorem specific_lookup_calls:
  "(a = JStr [] \<or> \<not> isinstance_str a \<longrightarrow>
      get_specific_ip_info repr_str self a net w =
        (Returns JNull, w\<lparr>printed := printed w @ [''Error: Invalid IP address format.'']\<rparr>)
      \<and> sent (snd (get_specific_ip_info repr_str self a net w)) = sent w)
   \<and> (isinstance_str a \<and> a \<noteq> JStr [] \<longrightarrow>
      sent (snd (get_specific_ip_info repr_str self a net w)) =
        sent w @ [(specific_url self (py_str repr_str a), timeout self)])"
proof (cases a)
  case (JStr s)
  show ?thesis
  proof (cases "s = []")
    case True
    with JStr show ?thesis by (simp add: get_specific_ip_info_def print_def)
  next
    case False
    with JStr show ?thesis
      by (cases "net (specific_url self s) (timeout self)")
         (simp_all add: get_specific_ip_info_def requests_get_def specific_url_def print_def
           except_clauses_sent Let_def)
  qed
qed (simp_all add: get_specific_ip_info_def print_def)

theorem specific_lookup_calls_witness:
  "get_specific_ip_info id example_client (JInt 5) (answer 200 (JObj [])) quiet =
     (Returns JNull, \<lparr>printed = [''Error: Invalid IP address format.''], sent = []\<rparr>)
   \<and> sent (snd (get_specific_ip_info id example_client (JStr ''8.8.8.8'')
                  (\<lambda>url t. Inl Timeout) quiet))
     = [(''https://ipgeolocation.abstractapi.com/v1/?api_key=k&ip_address=8.8.8.8'', 10)]"
  using specific_lookup_calls [of "JInt 5" id example_client "answer 200 (JObj [])" quiet]
    specific_lookup_calls [of "JStr ''8.8.8.8''" id example_client "\<lambda>url t. Inl Timeout" quiet]
  by (simp add: example_client_def quiet_def specific_url_def)

section \<open>Properties of the file export\<close>

































lemma digit_not_special:
  "is_digit c \<Longrightarrow> \<not> is_ws c \<and> c \<noteq> CHR 0x22 \<and> c \<noteq> CHR ''{'' \<and> c \<noteq> CHR ''['' \<and> c \<noteq> CHR '']''
     \<and> c \<noteq> CHR ''}'' \<and> c \<noteq> CHR '','' \<and> c \<noteq> CHR ''n'' \<and> c \<noteq> CHR ''t'' \<and> c \<noteq> CHR ''f''"
  by (auto simp: is_digit_def is_ws_def)






















lemma need_positive: "0 < need v"
  by (cases v) simp_all















end
